theory Spec2Isabelle
  imports Main
begin

section \<open>The values the evaluator works on\<close>

text \<open>
  The class \<open>RoleBasedAccessControl\<close> of \<open>src/core/rbac.ts\<close> is generic in three string
  types (\<open>TPerm\<close>, \<open>TRoleName\<close>, \<open>TSectorName\<close>, all \<open>extends string\<close>); every one of them
  is a \<open>string\<close> here.
\<close>

type_synonym permission = string
type_synonym role_name = string
type_synonym sector_name = string

text \<open>
  The class has no \<open>throw\<close> of its own. The one error that its code can raise is the
  \<open>TypeError\<close> of a method call on a value that has no such method.
\<close>

datatype error = TypeError

subsection \<open>A store of arrays and tables\<close>

text \<open>
  A \<open>TPerm[]\<close> and a \<open>Record<string, TPerm[]>\<close> are mutable objects that the evaluator
  keeps by reference: the constructor and \<open>setRoleDefinitions\<close> keep the caller's table,
  \<open>defineRole\<close> writes the caller's array into it, \<open>getRolePermissions\<close> hands the array
  out again, and the sector methods do the same. Arrays and tables therefore live in a
  store, each kind with its own addresses; \<open>next_array\<close> and \<open>next_table\<close> are the next
  unused ones.

  A table is a plain object, as an object literal, \<open>JSON.parse\<close> or the constructor's
  \<open>{}\<close> make it: its own keys lead to arrays, and its prototype is \<open>Object.prototype\<close>.
\<close>

type_synonym array_ref = nat
type_synonym table_ref = nat

record store =
  arrays :: "array_ref \<Rightarrow> permission list"
  tables :: "table_ref \<Rightarrow> (string \<rightharpoonup> array_ref)"
  next_array :: array_ref
  next_table :: table_ref

text \<open>The array literal \<open>[x1, ..., xn]\<close>: a new array.\<close>

definition new_Array :: "permission list \<Rightarrow> store \<Rightarrow> array_ref \<times> store" where
  "new_Array xs h =
     (next_array h,
      h\<lparr>arrays := (arrays h)(next_array h := xs), next_array := Suc (next_array h)\<rparr>)"

text \<open>The object literal \<open>{}\<close>: a new table without own keys.\<close>

definition new_Object :: "store \<Rightarrow> table_ref \<times> store" where
  "new_Object h =
     (next_table h,
      h\<lparr>tables := (tables h)(next_table h := Map.empty), next_table := Suc (next_table h)\<rparr>)"

text \<open>
  The spread \<open>{ ...t }\<close>: a new table with the own keys of \<open>t\<close> and the same array
  references under them.
\<close>

definition spread_Object :: "table_ref \<Rightarrow> store \<Rightarrow> table_ref \<times> store" where
  "spread_Object t h =
     (next_table h,
      h\<lparr>tables := (tables h)(next_table h := tables h t), next_table := Suc (next_table h)\<rparr>)"

text \<open>\<open>Array.prototype.push\<close>, as a holder of the reference may call it.\<close>

definition Array_push :: "array_ref \<Rightarrow> permission \<Rightarrow> store \<Rightarrow> store" where
  "Array_push r x h = h\<lparr>arrays := (arrays h)(r := arrays h r @ [x])\<rparr>"

text \<open>\<open>Array.prototype.includes\<close> on strings is equality with some element.\<close>

definition Array_includes :: "permission list \<Rightarrow> permission \<Rightarrow> bool" where
  "Array_includes xs x = (x \<in> set xs)"

subsection \<open>Reading a table\<close>

text \<open>
  \<open>table[key]\<close> finds an own key first and then walks the prototype chain, which for a
  plain object is \<open>Object.prototype\<close>. Its member names are those of ECMAScript with
  Annex B, as Node.js and the browsers have them. The member found there is a function
  (for \<open>__proto__\<close> the prototype object itself): it is neither \<open>null\<close> nor \<open>undefined\<close>, and
  it has no method \<open>includes\<close> or \<open>forEach\<close>.
\<close>

definition Object_prototype_names :: "string list" where
  "Object_prototype_names =
     [''constructor'', ''__defineGetter__'', ''__defineSetter__'', ''hasOwnProperty'',
      ''__lookupGetter__'', ''__lookupSetter__'', ''isPrototypeOf'',
      ''propertyIsEnumerable'', ''toString'', ''valueOf'', ''__proto__'',
      ''toLocaleString'']"

datatype js_value = Undefined | ArrayAt array_ref | Inherited

definition get_property :: "store \<Rightarrow> table_ref \<Rightarrow> string \<Rightarrow> js_value" where
  "get_property h t k =
     (case tables h t k of
        Some r \<Rightarrow> ArrayAt r
      | None \<Rightarrow> if k \<in> set Object_prototype_names then Inherited else Undefined)"

text \<open>
  \<open>(v ?? []).includes(...)\<close> and \<open>(v ?? []).forEach(...)\<close>: the operator \<open>??\<close> replaces
  \<open>undefined\<close> by an empty array and keeps every other value; the method call then works
  on the elements of an array and throws on an inherited member.
\<close>

definition as_array :: "store \<Rightarrow> js_value \<Rightarrow> error + permission list" where
  "as_array h v =
     (case v of
        Undefined \<Rightarrow> Inr []
      | ArrayAt r \<Rightarrow> Inr (arrays h r)
      | Inherited \<Rightarrow> Inl TypeError)"

text \<open>
  The list that a table holds under a key of its own, empty when it has no such key: the
  "definition list" of a role and the "restriction list" of a sector.
\<close>

definition own_list :: "store \<Rightarrow> table_ref \<Rightarrow> string \<Rightarrow> permission list" where
  "own_list h t k = (case tables h t k of None \<Rightarrow> [] | Some r \<Rightarrow> arrays h r)"

subsection \<open>JavaScript sets\<close>

text \<open>
  A \<open>Set\<close> holds each element once and iterates in insertion order: a list without
  duplicates, new elements at the end. The three sets of an evaluator are created by
  \<open>new Set(...)\<close> inside the class and no method returns them (every accessor builds a
  \<open>new Set\<close> from them), so they are plain values of the state.
\<close>

type_synonym 'a jsset = "'a list"

definition Set_has :: "'a jsset \<Rightarrow> 'a \<Rightarrow> bool" where
  "Set_has xs x = (x \<in> set xs)"

definition Set_add :: "'a \<Rightarrow> 'a jsset \<Rightarrow> 'a jsset" where
  "Set_add x xs = (if x \<in> set xs then xs else xs @ [x])"

text \<open>\<open>Set.prototype.delete\<close>: the element occurs at most once, and is gone afterwards.\<close>

definition Set_delete :: "'a \<Rightarrow> 'a jsset \<Rightarrow> 'a jsset" where
  "Set_delete x xs = removeAll x xs"

text \<open>\<open>new Set(iterable)\<close> adds the elements one after the other to an empty set.\<close>

definition new_Set :: "'a list \<Rightarrow> 'a jsset" where
  "new_Set xs = fold Set_add xs []"

section \<open>The evaluator\<close>

record rbac =
  permissions :: "permission jsset"
  roles :: "role_name jsset"
  roleDefinitions :: table_ref
  restrictions :: "permission jsset"
  sector :: "sector_name option"
  sectorRestrictions :: table_ref

text \<open>The configuration object \<open>TConfig\<close>: every field may be absent.\<close>

record config =
  cfg_permissions :: "permission list option"
  cfg_roles :: "role_name list option"
  cfg_roleDefinitions :: "table_ref option"
  cfg_restrictions :: "permission list option"
  cfg_sector :: "sector_name option"
  cfg_sectorRestrictions :: "table_ref option"

definition or_else :: "'a option \<Rightarrow> 'a \<Rightarrow> 'a" where
  "or_else v d = (case v of None \<Rightarrow> d | Some x \<Rightarrow> x)"

text \<open>
  The constructor keeps the two tables of the configuration as they are, and makes a new
  empty table where the configuration has none.
\<close>

definition constructor :: "store \<Rightarrow> config \<Rightarrow> rbac \<times> store" where
  "constructor h cfg =
     (let (defs, h1) = (case cfg_roleDefinitions cfg of None \<Rightarrow> new_Object h | Some t \<Rightarrow> (t, h));
          (secs, h2) = (case cfg_sectorRestrictions cfg of None \<Rightarrow> new_Object h1 | Some t \<Rightarrow> (t, h1))
      in (\<lparr>permissions = new_Set (or_else (cfg_permissions cfg) []),
           roles = new_Set (or_else (cfg_roles cfg) []),
           roleDefinitions = defs,
           restrictions = new_Set (or_else (cfg_restrictions cfg) []),
           sector = cfg_sector cfg,
           sectorRestrictions = secs\<rparr>, h2))"

text \<open>
  \<open>isRestricted\<close>. The guard \<open>if (this.sector)\<close> tests truthiness: \<open>null\<close> and the empty
  string both fail it.
\<close>

definition isRestricted :: "store \<Rightarrow> rbac \<Rightarrow> permission \<Rightarrow> error + bool" where
  "isRestricted h s perm =
     (if Set_has (restrictions s) perm then Inr True
      else case sector s of
             None \<Rightarrow> Inr False
           | Some sec \<Rightarrow>
               if sec = '''' then Inr False
               else (case as_array h (get_property h (sectorRestrictions s) sec) of
                       Inl e \<Rightarrow> Inl e
                     | Inr sectorRestrictedPerms \<Rightarrow>
                         if Array_includes sectorRestrictedPerms perm then Inr True
                         else Inr False))"

definition getPermissions :: "rbac \<Rightarrow> permission jsset" where
  "getPermissions s = new_Set (permissions s)"

text \<open>
  The two loops of \<open>getAllPermissions\<close>: \<open>this.roles.forEach\<close> adds the list of each role,
  \<open>allPerms.forEach\<close> keeps what \<open>isRestricted\<close> lets through. An error ends them.
\<close>

fun add_role_permissions ::
  "store \<Rightarrow> table_ref \<Rightarrow> role_name list \<Rightarrow> permission jsset \<Rightarrow> error + permission jsset" where
  "add_role_permissions h defs [] allPerms = Inr allPerms"
| "add_role_permissions h defs (role # rest) allPerms =
     (case as_array h (get_property h defs role) of
        Inl e \<Rightarrow> Inl e
      | Inr rolePerms \<Rightarrow> add_role_permissions h defs rest (fold Set_add rolePerms allPerms))"

fun keep_unrestricted ::
  "store \<Rightarrow> rbac \<Rightarrow> permission list \<Rightarrow> permission jsset \<Rightarrow> error + permission jsset" where
  "keep_unrestricted h s [] effectivePerms = Inr effectivePerms"
| "keep_unrestricted h s (perm # rest) effectivePerms =
     (case isRestricted h s perm of
        Inl e \<Rightarrow> Inl e
      | Inr restricted \<Rightarrow>
          keep_unrestricted h s rest
            (if \<not> restricted then Set_add perm effectivePerms else effectivePerms))"

definition getAllPermissions :: "store \<Rightarrow> rbac \<Rightarrow> error + permission jsset" where
  "getAllPermissions h s =
     (case add_role_permissions h (roleDefinitions s) (roles s) (new_Set (permissions s)) of
        Inl e \<Rightarrow> Inl e
      | Inr allPerms \<Rightarrow> keep_unrestricted h s allPerms [])"

definition setPermissions :: "permission list \<Rightarrow> rbac \<Rightarrow> rbac" where
  "setPermissions perms s = s\<lparr>permissions := new_Set perms\<rparr>"

definition addPermissions :: "permission list \<Rightarrow> rbac \<Rightarrow> permission jsset \<times> rbac" where
  "addPermissions perms s =
     (let s' = s\<lparr>permissions := fold Set_add perms (permissions s)\<rparr>
      in (new_Set (permissions s'), s'))"

definition removePermissions :: "permission list \<Rightarrow> rbac \<Rightarrow> permission jsset \<times> rbac" where
  "removePermissions perms s =
     (let s' = s\<lparr>permissions := fold Set_delete perms (permissions s)\<rparr>
      in (new_Set (permissions s'), s'))"

definition getRoles :: "rbac \<Rightarrow> role_name jsset" where
  "getRoles s = new_Set (roles s)"

definition setRoles :: "role_name list \<Rightarrow> rbac \<Rightarrow> rbac" where
  "setRoles rs s = s\<lparr>roles := new_Set rs\<rparr>"

definition addRoles :: "role_name list \<Rightarrow> rbac \<Rightarrow> role_name jsset \<times> rbac" where
  "addRoles rs s =
     (let s' = s\<lparr>roles := fold Set_add rs (roles s)\<rparr>
      in (new_Set (roles s'), s'))"

definition removeRoles :: "role_name list \<Rightarrow> rbac \<Rightarrow> role_name jsset \<times> rbac" where
  "removeRoles rs s =
     (let s' = s\<lparr>roles := fold Set_delete rs (roles s)\<rparr>
      in (new_Set (roles s'), s'))"

definition hasRole :: "rbac \<Rightarrow> role_name \<Rightarrow> bool" where
  "hasRole s role = Set_has (roles s) role"

text \<open>\<open>getRoleDefinitions\<close> returns \<open>{ ...this.roleDefinitions }\<close>.\<close>

definition getRoleDefinitions :: "store \<Rightarrow> rbac \<Rightarrow> table_ref \<times> store" where
  "getRoleDefinitions h s = spread_Object (roleDefinitions s) h"

definition setRoleDefinitions :: "table_ref \<Rightarrow> rbac \<Rightarrow> rbac" where
  "setRoleDefinitions definitions s = s\<lparr>roleDefinitions := definitions\<rparr>"

text \<open>
  The assignment \<open>table[key] = array\<close> of \<open>defineRole\<close> and \<open>defineSectorRestrictions\<close>
  writes into the table that the evaluator shares with whoever supplied it. For the key
  \<open>__proto__\<close> that is not an own key, the assignment reaches the setter of
  \<open>Object.prototype\<close> and makes the array the prototype of the table: the table is then
  no plain object any more, and the result \<open>None\<close> says that it has left this store.
\<close>

definition assign_property :: "table_ref \<Rightarrow> string \<Rightarrow> array_ref \<Rightarrow> store \<Rightarrow> store option" where
  "assign_property t k r h =
     (if k = ''__proto__'' \<and> tables h t k = None then None
      else Some (h\<lparr>tables := (tables h)(t := (tables h t)(k \<mapsto> r))\<rparr>))"

text \<open>\<open>delete table[key]\<close> removes an own key.\<close>

definition delete_property :: "table_ref \<Rightarrow> string \<Rightarrow> store \<Rightarrow> store" where
  "delete_property t k h = h\<lparr>tables := (tables h)(t := (tables h t)(k := None))\<rparr>"

definition defineRole :: "role_name \<Rightarrow> array_ref \<Rightarrow> store \<Rightarrow> rbac \<Rightarrow> store option" where
  "defineRole role perms h s = assign_property (roleDefinitions s) role perms h"

definition removeRoleDefinition :: "role_name \<Rightarrow> store \<Rightarrow> rbac \<Rightarrow> store" where
  "removeRoleDefinition role h s = delete_property (roleDefinitions s) role h"

text \<open>
  \<open>getRolePermissions\<close> returns \<open>this.roleDefinitions[role] ?? []\<close>: the value found under
  the key, or a new empty array.
\<close>

definition value_or_new_Array :: "js_value \<Rightarrow> store \<Rightarrow> js_value \<times> store" where
  "value_or_new_Array v h =
     (case v of
        Undefined \<Rightarrow> (let (r, h') = new_Array [] h in (ArrayAt r, h'))
      | ArrayAt r \<Rightarrow> (ArrayAt r, h)
      | Inherited \<Rightarrow> (Inherited, h))"

definition getRolePermissions :: "store \<Rightarrow> rbac \<Rightarrow> role_name \<Rightarrow> js_value \<times> store" where
  "getRolePermissions h s role =
     value_or_new_Array (get_property h (roleDefinitions s) role) h"

definition getRestrictions :: "rbac \<Rightarrow> permission jsset" where
  "getRestrictions s = new_Set (restrictions s)"

definition getAllRestrictions :: "store \<Rightarrow> rbac \<Rightarrow> error + permission jsset" where
  "getAllRestrictions h s =
     (let allRestrictions = new_Set (restrictions s)
      in case sector s of
           None \<Rightarrow> Inr allRestrictions
         | Some sec \<Rightarrow>
             if sec = '''' then Inr allRestrictions
             else (case as_array h (get_property h (sectorRestrictions s) sec) of
                     Inl e \<Rightarrow> Inl e
                   | Inr sectorRestrictedPerms \<Rightarrow>
                       Inr (fold Set_add sectorRestrictedPerms allRestrictions)))"

definition setRestrictions :: "permission list \<Rightarrow> rbac \<Rightarrow> rbac" where
  "setRestrictions perms s = s\<lparr>restrictions := new_Set perms\<rparr>"

definition addRestrictions :: "permission list \<Rightarrow> rbac \<Rightarrow> permission jsset \<times> rbac" where
  "addRestrictions perms s =
     (let s' = s\<lparr>restrictions := fold Set_add perms (restrictions s)\<rparr>
      in (new_Set (restrictions s'), s'))"

definition removeRestrictions :: "permission list \<Rightarrow> rbac \<Rightarrow> permission jsset \<times> rbac" where
  "removeRestrictions perms s =
     (let s' = s\<lparr>restrictions := fold Set_delete perms (restrictions s)\<rparr>
      in (new_Set (restrictions s'), s'))"

definition clearRestrictions :: "rbac \<Rightarrow> rbac" where
  "clearRestrictions s = s\<lparr>restrictions := []\<rparr>"

definition getSector :: "rbac \<Rightarrow> sector_name option" where
  "getSector s = sector s"

definition setSector :: "sector_name option \<Rightarrow> rbac \<Rightarrow> rbac" where
  "setSector sec s = s\<lparr>sector := sec\<rparr>"

definition getSectorRestrictions :: "store \<Rightarrow> rbac \<Rightarrow> table_ref \<times> store" where
  "getSectorRestrictions h s = spread_Object (sectorRestrictions s) h"

definition setSectorRestrictions :: "table_ref \<Rightarrow> rbac \<Rightarrow> rbac" where
  "setSectorRestrictions t s = s\<lparr>sectorRestrictions := t\<rparr>"

definition defineSectorRestrictions ::
  "sector_name \<Rightarrow> array_ref \<Rightarrow> store \<Rightarrow> rbac \<Rightarrow> store option" where
  "defineSectorRestrictions sec perms h s = assign_property (sectorRestrictions s) sec perms h"

definition removeSectorRestrictions :: "sector_name \<Rightarrow> store \<Rightarrow> rbac \<Rightarrow> store" where
  "removeSectorRestrictions sec h s = delete_property (sectorRestrictions s) sec h"

definition getSectorRestrictedPermissions ::
  "store \<Rightarrow> rbac \<Rightarrow> sector_name \<Rightarrow> js_value \<times> store" where
  "getSectorRestrictedPermissions h s sec =
     value_or_new_Array (get_property h (sectorRestrictions s) sec) h"

text \<open>
  The \<open>for (const role of this.roles)\<close> loop of \<open>hasPermission\<close>: it returns \<open>true\<close> at
  the first role whose list includes the permission, and falls through to \<open>false\<close>.
\<close>

fun roles_loop :: "store \<Rightarrow> table_ref \<Rightarrow> role_name list \<Rightarrow> permission \<Rightarrow> error + bool" where
  "roles_loop h defs [] perm = Inr False"
| "roles_loop h defs (role # rest) perm =
     (case as_array h (get_property h defs role) of
        Inl e \<Rightarrow> Inl e
      | Inr rolePerms \<Rightarrow>
          if Array_includes rolePerms perm then Inr True else roles_loop h defs rest perm)"

definition hasPermission :: "store \<Rightarrow> rbac \<Rightarrow> permission \<Rightarrow> error + bool" where
  "hasPermission h s perm =
     (case isRestricted h s perm of
        Inl e \<Rightarrow> Inl e
      | Inr restricted \<Rightarrow>
          if restricted then Inr False
          else if Set_has (permissions s) perm then Inr True
          else roles_loop h (roleDefinitions s) (roles s) perm)"

text \<open>
  \<open>Array.prototype.every\<close> and \<open>Array.prototype.some\<close> with a callback that may throw:
  they stop at the first \<open>false\<close> and at the first \<open>true\<close>, and an error ends them.
\<close>

fun Array_every :: "('a \<Rightarrow> error + bool) \<Rightarrow> 'a list \<Rightarrow> error + bool" where
  "Array_every f [] = Inr True"
| "Array_every f (x # xs) =
     (case f x of Inl e \<Rightarrow> Inl e | Inr b \<Rightarrow> if b then Array_every f xs else Inr False)"

fun Array_some :: "('a \<Rightarrow> error + bool) \<Rightarrow> 'a list \<Rightarrow> error + bool" where
  "Array_some f [] = Inr False"
| "Array_some f (x # xs) =
     (case f x of Inl e \<Rightarrow> Inl e | Inr b \<Rightarrow> if b then Inr True else Array_some f xs)"

text \<open>
  \<open>can\<close> and \<open>hasRoles\<close> take one value or an array of them, and an optional flag: \<open>None\<close>
  is the omitted argument, which takes the default of the signature.
\<close>

datatype 'a one_or_many = One 'a | Many "'a list"

definition can :: "store \<Rightarrow> rbac \<Rightarrow> permission one_or_many \<Rightarrow> bool option \<Rightarrow> error + bool" where
  "can h s perms every_arg =
     (let every = or_else every_arg True
      in case perms of
           One perm \<Rightarrow> hasPermission h s perm
         | Many ps \<Rightarrow>
             if every then Array_every (\<lambda>perm. hasPermission h s perm) ps
             else Array_some (\<lambda>perm. hasPermission h s perm) ps)"

definition hasRoles :: "rbac \<Rightarrow> role_name one_or_many \<Rightarrow> bool option \<Rightarrow> bool" where
  "hasRoles s rs every_arg =
     (let every = or_else every_arg False
      in case rs of
           One role \<Rightarrow> hasRole s role
         | Many rl \<Rightarrow>
             if every then list_all (\<lambda>role. hasRole s role) rl
             else list_ex (\<lambda>role. hasRole s role) rl)"

definition isPermissionRestricted :: "store \<Rightarrow> rbac \<Rightarrow> permission \<Rightarrow> error + bool" where
  "isPermissionRestricted h s perm = isRestricted h s perm"

section \<open>Example evaluators\<close>

text \<open>
  One store for all examples: the arrays and the tables that the configurations below
  refer to.
\<close>

definition demo_store :: store where
  "demo_store =
     \<lparr>arrays = (\<lambda>_. [])
        (0 := [''read'', ''write''],
         1 := [''delete''],
         2 := [''write''],
         3 := [''read'', ''write'', ''delete''],
         4 := [''read'']),
      tables = (\<lambda>_. Map.empty)
        (0 := [''editor'' \<mapsto> 0],
         1 := [''admin'' \<mapsto> 1],
         2 := [''finance'' \<mapsto> 1],
         3 := ['''' \<mapsto> 1],
         4 := [''admin'' \<mapsto> 3, ''editor'' \<mapsto> 0, ''viewer'' \<mapsto> 4],
         5 := [''finance'' \<mapsto> 1, ''hr'' \<mapsto> 2],
         6 := [''viewer'' \<mapsto> 4, ''editor'' \<mapsto> 0]),
      next_array = 5,
      next_table = 7\<rparr>"

definition no_config :: config where
  "no_config =
     \<lparr>cfg_permissions = None, cfg_roles = None, cfg_roleDefinitions = None,
      cfg_restrictions = None, cfg_sector = None, cfg_sectorRestrictions = None\<rparr>"

text \<open>
  Each example is the evaluator that the constructor makes, together with the store after
  the construction.

  \<open>{ permissions: ["read", "update"] }\<close>
\<close>

definition scenario_A :: "rbac \<times> store" where
  "scenario_A = constructor demo_store (no_config\<lparr>cfg_permissions := Some [''read'', ''update'']\<rparr>)"

text \<open>\<open>{ roles: ["editor"], roleDefinitions: { editor: ["read", "write"] } }\<close>\<close>

definition scenario_B :: "rbac \<times> store" where
  "scenario_B =
     constructor demo_store
       (no_config\<lparr>cfg_roles := Some [''editor''], cfg_roleDefinitions := Some 0\<rparr>)"

text \<open>
  \<open>{ permissions: ["delete"], roles: ["admin"], roleDefinitions: { admin: ["delete"] },
     restrictions: ["delete"] }\<close>
\<close>

definition scenario_C :: "rbac \<times> store" where
  "scenario_C =
     constructor demo_store
       (no_config\<lparr>cfg_permissions := Some [''delete''],
                   cfg_roles := Some [''admin''],
                   cfg_roleDefinitions := Some 1,
                   cfg_restrictions := Some [''delete'']\<rparr>)"

text \<open>
  \<open>{ permissions: ["delete"], sector: "finance", sectorRestrictions: { finance: ["delete"] } }\<close>
\<close>

definition scenario_D :: "rbac \<times> store" where
  "scenario_D =
     constructor demo_store
       (no_config\<lparr>cfg_permissions := Some [''delete''],
                   cfg_sector := Some ''finance'',
                   cfg_sectorRestrictions := Some 2\<rparr>)"

text \<open>
  \<open>{ permissions: ["delete"], sector: "", sectorRestrictions: { "": ["delete"] } }\<close>
\<close>

definition empty_sector :: "rbac \<times> store" where
  "empty_sector =
     constructor demo_store
       (no_config\<lparr>cfg_permissions := Some [''delete''],
                   cfg_sector := Some '''',
                   cfg_sectorRestrictions := Some 3\<rparr>)"

text \<open>
  The evaluator of the test "should work with typed permissions and roles":
  \<open>{ permissions: ["read"], roles: ["editor"],
     roleDefinitions: { admin: ["read", "write", "delete"], editor: ["read", "write"],
                        viewer: ["read"] },
     sector: "finance", sectorRestrictions: { finance: ["delete"], hr: ["write"] } }\<close>
\<close>

definition typed_example :: "rbac \<times> store" where
  "typed_example =
     constructor demo_store
       \<lparr>cfg_permissions = Some [''read''],
        cfg_roles = Some [''editor''],
        cfg_roleDefinitions = Some 4,
        cfg_restrictions = None,
        cfg_sector = Some ''finance'',
        cfg_sectorRestrictions = Some 5\<rparr>"

text \<open>
  Two evaluators with the role table \<open>{ viewer: ["read"], editor: ["read", "write"] }\<close>:
  one with \<open>roles: ["viewer"]\<close>, one with \<open>roles: ["editor"]\<close>.
\<close>

definition viewer_only :: "rbac \<times> store" where
  "viewer_only =
     constructor demo_store
       (no_config\<lparr>cfg_roles := Some [''viewer''], cfg_roleDefinitions := Some 6\<rparr>)"

definition editor_assigned :: "rbac \<times> store" where
  "editor_assigned =
     constructor demo_store
       (no_config\<lparr>cfg_roles := Some [''editor''], cfg_roleDefinitions := Some 6\<rparr>)"

text \<open>
  Two evaluators whose names meet \<open>Object.prototype\<close>: \<open>{ roles: ["constructor"] }\<close> and
  \<open>{ permissions: ["read"], sector: "toString" }\<close>. Both tables are the \<open>{}\<close> that the
  constructor makes.
\<close>

definition constructor_role :: "rbac \<times> store" where
  "constructor_role = constructor demo_store (no_config\<lparr>cfg_roles := Some [''constructor'']\<rparr>)"

definition toString_sector :: "rbac \<times> store" where
  "toString_sector =
     constructor demo_store
       (no_config\<lparr>cfg_permissions := Some [''read''], cfg_sector := Some ''toString''\<rparr>)"

lemmas example_defs =
  demo_store_def no_config_def scenario_A_def scenario_B_def scenario_C_def scenario_D_def
  empty_sector_def typed_example_def viewer_only_def editor_assigned_def
  constructor_role_def toString_sector_def constructor_def new_Object_def or_else_def
  new_Set_def Set_add_def Set_delete_def Set_has_def Array_includes_def
  get_property_def as_array_def own_list_def Object_prototype_names_def

section \<open>Sets as duplicate-free lists\<close>

lemma set_fold_Set_add: "set (fold Set_add xs acc) = set xs \<union> set acc"
  by (induction xs arbitrary: acc) (auto simp: Set_add_def)

lemma set_new_Set: "set (new_Set xs) = set xs"
  by (simp add: new_Set_def set_fold_Set_add)

lemma distinct_fold_Set_add: "distinct acc \<Longrightarrow> distinct (fold Set_add xs acc)"
  by (induction xs arbitrary: acc) (auto simp: Set_add_def)

lemma distinct_new_Set: "distinct (new_Set xs)"
  by (simp add: new_Set_def distinct_fold_Set_add)

lemma distinct_fold_Set_delete: "distinct acc \<Longrightarrow> distinct (fold Set_delete xs acc)"
  by (induction xs arbitrary: acc) (auto simp: Set_delete_def distinct_removeAll)

text \<open>Copying a set, \<open>new Set(aSet)\<close>, gives the same elements in the same order.\<close>

lemma fold_Set_add_append: "distinct (acc @ xs) \<Longrightarrow> fold Set_add xs acc = acc @ xs"
  by (induction xs arbitrary: acc) (auto simp: Set_add_def)

lemma new_Set_copy: "distinct xs \<Longrightarrow> new_Set xs = xs"
  by (simp add: new_Set_def fold_Set_add_append)

lemma fold_Set_add_present: "set xs \<subseteq> set acc \<Longrightarrow> fold Set_add xs acc = acc"
  by (induction xs arbitrary: acc) (auto simp: Set_add_def)

lemma fold_Set_delete_absent: "set xs \<inter> set acc = {} \<Longrightarrow> fold Set_delete xs acc = acc"
  by (induction xs arbitrary: acc) (auto simp: Set_delete_def)

lemma set_fold_Set_delete: "set (fold Set_delete xs acc) = set acc - set xs"
  by (induction xs arbitrary: acc) (auto simp: Set_delete_def)

section \<open>What the queries compute\<close>

text \<open>Where the lookup finds no inherited member, it reads the table's own list.\<close>

lemma as_array_own_list:
  "get_property h t k \<noteq> Inherited \<Longrightarrow> as_array h (get_property h t k) = Inr (own_list h t k)"
  by (auto simp: get_property_def as_array_def own_list_def split: option.splits if_splits)

lemma in_own_list_not_Inherited:
  "perm \<in> set (own_list h t k) \<Longrightarrow> get_property h t k \<noteq> Inherited"
  by (auto simp: get_property_def own_list_def split: option.splits)

lemma isRestricted_direct:
  "perm \<in> set (restrictions s) \<Longrightarrow> isRestricted h s perm = Inr True"
  by (simp add: isRestricted_def Set_has_def)

lemma isRestricted_by_sector:
  assumes "sector s = Some sec" and "sec \<noteq> ''''"
    and "perm \<in> set (own_list h (sectorRestrictions s) sec)"
  shows "isRestricted h s perm = Inr True"
  using assms
  by (simp add: isRestricted_def as_array_own_list in_own_list_not_Inherited Array_includes_def)

lemma isRestricted_safe:
  assumes "case sector s of
             None \<Rightarrow> True
           | Some sec \<Rightarrow> get_property h (sectorRestrictions s) sec \<noteq> Inherited"
  shows "isRestricted h s perm =
           Inr (perm \<in> set (restrictions s) \<or>
                (\<exists>sec. sector s = Some sec \<and> sec \<noteq> [] \<and>
                       perm \<in> set (own_list h (sectorRestrictions s) sec)))"
  using assms
  by (auto simp: isRestricted_def Set_has_def Array_includes_def as_array_own_list
      split: option.splits)

lemma roles_loop_safe:
  assumes "\<forall>role\<in>set rs. get_property h defs role \<noteq> Inherited"
  shows "roles_loop h defs rs perm = Inr (\<exists>role\<in>set rs. perm \<in> set (own_list h defs role))"
  using assms by (induction rs) (auto simp: as_array_own_list Array_includes_def)

lemma add_role_permissions_safe:
  assumes "\<forall>role\<in>set rs. get_property h defs role \<noteq> Inherited"
  shows "\<exists>all. add_role_permissions h defs rs acc = Inr all \<and>
               set all = set acc \<union> (\<Union>role\<in>set rs. set (own_list h defs role))"
  using assms
proof (induction rs arbitrary: acc)
  case Nil
  then show ?case by simp
next
  case (Cons role rest)
  then obtain all where
    "add_role_permissions h defs rest (fold Set_add (own_list h defs role) acc) = Inr all"
    "set all = set (fold Set_add (own_list h defs role) acc) \<union>
               (\<Union>role\<in>set rest. set (own_list h defs role))"
    by fastforce
  with Cons.prems show ?case
    by (auto simp: as_array_own_list set_fold_Set_add)
qed

lemma keep_unrestricted_safe:
  assumes "\<And>perm. isRestricted h s perm = Inr (R perm)"
  shows "\<exists>eff. keep_unrestricted h s xs acc = Inr eff \<and>
               set eff = set acc \<union> {perm \<in> set xs. \<not> R perm}"
proof (induction xs arbitrary: acc)
  case Nil
  then show ?case by simp
next
  case (Cons perm rest)
  let ?acc = "if \<not> R perm then Set_add perm acc else acc"
  from Cons.IH [of ?acc] obtain eff where
    "keep_unrestricted h s rest ?acc = Inr eff"
    "set eff = set ?acc \<union> {perm \<in> set rest. \<not> R perm}"
    by blast
  then show ?case
    by (auto simp: assms Set_add_def split: if_splits)
qed

lemma Array_every_True: "(Array_every f xs = Inr True) = (\<forall>x\<in>set xs. f x = Inr True)"
  by (induction xs) (auto split: sum.splits)

lemma Array_every_no_error:
  "\<forall>x\<in>set xs. f x \<noteq> Inl TypeError \<Longrightarrow>
   Array_every f xs = Inr (\<forall>x\<in>set xs. f x = Inr True)"
proof (induction xs)
  case Nil
  then show ?case by simp
next
  case (Cons x xs)
  then obtain b where "f x = Inr b"
    by (cases "f x") (auto intro: error.exhaust)
  with Cons show ?case
    by auto
qed

section \<open>The model on the documented examples\<close>

text \<open>
  The example in the comment of \<open>can\<close> and the scenarios of the test suite evaluate in the
  model to the values the source states for them.
\<close>

lemma scenario_A_queries:
  "case scenario_A of
     (s, h) \<Rightarrow>
       hasPermission h s ''read'' = Inr True \<and>
       hasPermission h s ''delete'' = Inr False \<and>
       can h s (Many [''read'', ''update'']) (Some True) = Inr True \<and>
       can h s (Many [''read'', ''delete'']) (Some False) = Inr True"
  by (simp add: example_defs can_def hasPermission_def isRestricted_def)

lemma scenario_B_queries:
  "case scenario_B of
     (s, h) \<Rightarrow>
       hasPermission h s ''write'' = Inr True \<and>
       getAllPermissions h s = Inr [''read'', ''write'']"
  by (simp add: example_defs hasPermission_def getAllPermissions_def isRestricted_def)

lemma scenario_D_switch:
  "case scenario_D of
     (s, h) \<Rightarrow>
       hasPermission h s ''delete'' = Inr False \<and>
       hasPermission h (setSector (Some ''hr'') s) ''delete'' = Inr True"
  by (simp add: example_defs hasPermission_def isRestricted_def setSector_def)

lemma typed_example_queries:
  "case typed_example of
     (s, h) \<Rightarrow>
       hasPermission h s ''read'' = Inr True \<and>
       hasRole s ''editor'' = True \<and>
       getSector s = Some ''finance'' \<and>
       getAllRestrictions h s = Inr [''delete'']"
  by (simp add: example_defs hasPermission_def isRestricted_def hasRole_def getSector_def
      getAllRestrictions_def)

text \<open>The test "should handle role without definition": \<open>{ roles: ["editor"] }\<close>.\<close>

lemma role_without_definition:
  "case constructor demo_store (no_config\<lparr>cfg_roles := Some [''editor'']\<rparr>) of
     (s, h) \<Rightarrow> hasPermission h s ''read'' = Inr False"
  by (simp add: example_defs hasPermission_def isRestricted_def)

section \<open>Resolution: denial before grant\<close>

text \<open>
  C1, as the code has it. If \<open>perm\<close> is in the direct-restriction set, or the current
  sector is a non-empty string and \<open>perm\<close> is in that sector's restriction list, then
  \<open>hasPermission(perm)\<close> returns \<open>false\<close>, whatever the direct permissions and the assigned
  roles grant.
\<close>

theorem restricted_permission_is_denied:
  assumes "perm \<in> set (restrictions s) \<or>
           (case sector s of
              None \<Rightarrow> False
            | Some sec \<Rightarrow>
                sec \<noteq> '''' \<and> perm \<in> set (own_list h (sectorRestrictions s) sec))"
  shows "hasPermission h s perm = Inr False"
proof -
  from assms have "isRestricted h s perm = Inr True"
  proof
    assume "perm \<in> set (restrictions s)"
    then show ?thesis
      by (rule isRestricted_direct)
  next
    assume "case sector s of
              None \<Rightarrow> False
            | Some sec \<Rightarrow>
                sec \<noteq> '''' \<and> perm \<in> set (own_list h (sectorRestrictions s) sec)"
    then obtain sec where "sector s = Some sec" and "sec \<noteq> ''''"
      and "perm \<in> set (own_list h (sectorRestrictions s) sec)"
      by (auto split: option.splits)
    then show ?thesis
      by (rule isRestricted_by_sector)
  qed
  then show ?thesis
    by (simp add: hasPermission_def)
qed

text \<open>
  Scenario C (granted directly and by a role, and restricted) and scenario D (restricted
  by the sector \<open>finance\<close>).
\<close>

theorem restricted_permission_is_denied_witness:
  "(case scenario_C of
      (s, h) \<Rightarrow>
        ''delete'' \<in> set (permissions s) \<and>
        ''delete'' \<in> set (own_list h (roleDefinitions s) ''admin'') \<and>
        ''delete'' \<in> set (restrictions s) \<and>
        hasPermission h s ''delete'' = Inr False) \<and>
   (case scenario_D of
      (s, h) \<Rightarrow>
        sector s = Some ''finance'' \<and>
        ''delete'' \<in> set (own_list h (sectorRestrictions s) ''finance'') \<and>
        hasPermission h s ''delete'' = Inr False)"
  using restricted_permission_is_denied [of "''delete''" "fst scenario_C" "snd scenario_C"]
    restricted_permission_is_denied [of "''delete''" "fst scenario_D" "snd scenario_D"]
  by (simp add: example_defs)

text \<open>
  C1 as stated fails where the current sector is the empty string: the sector is set
  (it is not \<open>null\<close>), \<open>delete\<close> is in its restriction list, and \<open>hasPermission("delete")\<close>
  is \<open>true\<close>.
\<close>

theorem empty_sector_restriction_is_ignored:
  "case empty_sector of
     (s, h) \<Rightarrow>
       sector s = Some '''' \<and>
       ''delete'' \<in> set (own_list h (sectorRestrictions s) '''') \<and>
       hasPermission h s ''delete'' = Inr True"
  by (simp add: example_defs hasPermission_def isRestricted_def)

text \<open>
  C3 says that for a permission that is neither in the direct-restriction set nor in the
  current sector's restriction list, \<open>hasPermission\<close> returns \<open>true\<close> exactly when the
  permission is in the direct-permission set or in the definition list of an assigned
  role. The code does not return where a lookup meets a member of \<open>Object.prototype\<close>:
  with \<open>{ roles: ["constructor"] }\<close>, \<open>read\<close> is not restricted and not granted, and
  \<open>hasPermission("read")\<close> throws in the role loop instead of returning \<open>false\<close>; with
  \<open>{ permissions: ["read"], sector: "toString" }\<close>, \<open>read\<close> is not restricted and is
  granted directly, and \<open>hasPermission("read")\<close> throws in \<open>isRestricted\<close> instead of
  returning \<open>true\<close>.
\<close>

theorem unrestricted_query_throws:
  "(case constructor_role of
      (s, h) \<Rightarrow>
        restrictions s = [] \<and> sector s = None \<and>
        permissions s = [] \<and> roles s = [''constructor''] \<and>
        own_list h (roleDefinitions s) ''constructor'' = [] \<and>
        hasPermission h s ''read'' = Inl TypeError) \<and>
   (case toString_sector of
      (s, h) \<Rightarrow>
        restrictions s = [] \<and> sector s = Some ''toString'' \<and>
        own_list h (sectorRestrictions s) ''toString'' = [] \<and>
        permissions s = [''read''] \<and>
        hasPermission h s ''read'' = Inl TypeError)"
  by (simp add: example_defs hasPermission_def isRestricted_def)

text \<open>
  Where no assigned role and not the current sector leads to an inherited member, the
  characterization holds.
\<close>

lemma grant_characterization_own_keys:
  assumes "perm \<notin> set (restrictions s)"
    and "case sector s of
           None \<Rightarrow> True
         | Some sec \<Rightarrow>
             perm \<notin> set (own_list h (sectorRestrictions s) sec) \<and>
             get_property h (sectorRestrictions s) sec \<noteq> Inherited"
    and "\<forall>role\<in>set (roles s). get_property h (roleDefinitions s) role \<noteq> Inherited"
  shows "hasPermission h s perm =
           Inr (perm \<in> set (permissions s) \<or>
                (\<exists>role\<in>set (roles s). perm \<in> set (own_list h (roleDefinitions s) role)))"
proof -
  from assms(2) have "case sector s of
             None \<Rightarrow> True
           | Some sec \<Rightarrow> get_property h (sectorRestrictions s) sec \<noteq> Inherited"
    by (auto split: option.splits)
  from isRestricted_safe [OF this, of perm] assms(1,2)
  have "isRestricted h s perm = Inr False"
    by (auto split: option.splits)
  with assms(3) show ?thesis
    by (simp add: hasPermission_def Set_has_def roles_loop_safe)
qed

section \<open>The effective permission set\<close>

text \<open>
  C4, as the code has it. In a state where no assigned role and not the current sector
  leads to a member inherited from \<open>Object.prototype\<close>, \<open>getAllPermissions()\<close> returns
  the direct permissions and the permissions of the definition lists of the assigned
  roles, without those in the direct-restriction set and, when the current sector is a
  non-empty string, without those in that sector's restriction list.
\<close>

theorem getAllPermissions_effective_set:
  assumes "\<forall>role\<in>set (roles s). get_property h (roleDefinitions s) role \<noteq> Inherited"
    and "case sector s of
           None \<Rightarrow> True
         | Some sec \<Rightarrow> get_property h (sectorRestrictions s) sec \<noteq> Inherited"
  shows "\<exists>effective.
           getAllPermissions h s = Inr effective \<and>
           set effective =
             (set (permissions s) \<union>
              (\<Union>role\<in>set (roles s). set (own_list h (roleDefinitions s) role)))
             - (set (restrictions s) \<union>
                (case sector s of
                   None \<Rightarrow> {}
                 | Some sec \<Rightarrow>
                     if sec = '''' then {} else set (own_list h (sectorRestrictions s) sec)))"
  (is "\<exists>effective. _ \<and> set effective = ?granted - ?denied")
proof -
  let ?R = "\<lambda>perm. perm \<in> set (restrictions s) \<or>
                (\<exists>sec. sector s = Some sec \<and> sec \<noteq> [] \<and>
                       perm \<in> set (own_list h (sectorRestrictions s) sec))"
  have denied: "{p. ?R p} = ?denied"
    by (auto split: option.splits if_splits)
  from add_role_permissions_safe [OF assms(1), of "new_Set (permissions s)"]
  obtain all where all:
    "add_role_permissions h (roleDefinitions s) (roles s) (new_Set (permissions s)) = Inr all"
    "set all = ?granted"
    by (auto simp: set_new_Set)
  from keep_unrestricted_safe [of h s ?R all "[]"] isRestricted_safe [OF assms(2)]
  obtain eff where eff: "keep_unrestricted h s all [] = Inr eff"
    "set eff = {perm \<in> set all. \<not> ?R perm}"
    by auto
  have "getAllPermissions h s = Inr eff"
    by (simp add: getAllPermissions_def all eff)
  moreover have "set eff = ?granted - ?denied"
    unfolding eff(2) all(2) denied [symmetric] by blast
  ultimately show ?thesis
    by blast
qed

text \<open>
  Scenario B, scenario D and the typed example: every role and sector there is an own
  key of its table.
\<close>

theorem getAllPermissions_effective_set_witness:
  "(case scenario_B of
      (s, h) \<Rightarrow>
        roles s = [''editor''] \<and> get_property h (roleDefinitions s) ''editor'' = ArrayAt 0 \<and>
        sector s = None \<and> getAllPermissions h s = Inr [''read'', ''write'']) \<and>
   (case scenario_D of
      (s, h) \<Rightarrow>
        roles s = [] \<and> sector s = Some ''finance'' \<and>
        get_property h (sectorRestrictions s) ''finance'' = ArrayAt 1 \<and>
        getAllPermissions h s = Inr []) \<and>
   (case typed_example of
      (s, h) \<Rightarrow>
        roles s = [''editor''] \<and> get_property h (roleDefinitions s) ''editor'' = ArrayAt 0 \<and>
        sector s = Some ''finance'' \<and>
        get_property h (sectorRestrictions s) ''finance'' = ArrayAt 1 \<and>
        getAllPermissions h s = Inr [''read'', ''write''])"
  using getAllPermissions_effective_set [of "fst scenario_B" "snd scenario_B"]
    getAllPermissions_effective_set [of "fst scenario_D" "snd scenario_D"]
    getAllPermissions_effective_set [of "fst typed_example" "snd typed_example"]
  by (simp add: example_defs getAllPermissions_def isRestricted_def)

text \<open>
  C4 as stated fails where the current sector is the empty string: \<open>delete\<close> is in the
  current sector's restriction list and still in \<open>getAllPermissions()\<close>.
\<close>

theorem getAllPermissions_keeps_empty_sector_restriction:
  "case empty_sector of
     (s, h) \<Rightarrow>
       sector s = Some '''' \<and>
       ''delete'' \<in> set (own_list h (sectorRestrictions s) '''') \<and>
       getAllPermissions h s = Inr [''delete'']"
  by (simp add: example_defs getAllPermissions_def isRestricted_def)

text \<open>
  Where a lookup meets a member of \<open>Object.prototype\<close>, \<open>getAllPermissions()\<close> throws: in
  the loop over the roles with \<open>{ roles: ["constructor"] }\<close>, and in \<open>isRestricted\<close> with
  \<open>{ permissions: ["read"], sector: "toString" }\<close>.
\<close>

lemma getAllPermissions_throws:
  "(case constructor_role of (s, h) \<Rightarrow> getAllPermissions h s = Inl TypeError) \<and>
   (case toString_sector of (s, h) \<Rightarrow> getAllPermissions h s = Inl TypeError)"
  by (simp add: example_defs getAllPermissions_def isRestricted_def)

section \<open>Accessors and the arrays they return\<close>

text \<open>
  Writing to an array that no key of the evaluator's two tables leads to changes no
  query.
\<close>

lemma as_array_push_elsewhere:
  "r \<notin> ran (tables h t) \<Longrightarrow>
   as_array (Array_push r x h) (get_property (Array_push r x h) t k) =
     as_array h (get_property h t k)"
  by (auto simp: as_array_def get_property_def Array_push_def ran_def split: option.splits)

lemma roles_loop_push_elsewhere:
  "r \<notin> ran (tables h t) \<Longrightarrow> roles_loop (Array_push r x h) t rs p = roles_loop h t rs p"
  by (induction rs) (auto simp: as_array_push_elsewhere split: sum.splits)

lemma isRestricted_push_elsewhere:
  "r \<notin> ran (tables h (sectorRestrictions s)) \<Longrightarrow>
   isRestricted (Array_push r x h) s p = isRestricted h s p"
  by (auto simp: isRestricted_def as_array_push_elsewhere split: option.splits sum.splits)

lemma hasPermission_push_elsewhere:
  assumes "r \<notin> ran (tables h (roleDefinitions s))"
    and "r \<notin> ran (tables h (sectorRestrictions s))"
  shows "hasPermission (Array_push r x h) s p = hasPermission h s p"
  using assms
  by (auto simp: hasPermission_def isRestricted_push_elsewhere roles_loop_push_elsewhere
      split: sum.splits)

text \<open>
  C2 at \<open>getRolePermissions\<close> and \<open>getSectorRestrictedPermissions\<close>: both return the array
  that the table holds, not a copy. In the typed example,
  \<open>rbac.getRolePermissions("editor").push("update")\<close> turns \<open>hasPermission("update")\<close> from
  \<open>false\<close> to \<open>true\<close> and adds \<open>update\<close> to \<open>getAllPermissions()\<close>, and
  \<open>rbac.getSectorRestrictedPermissions("finance").push("read")\<close> turns
  \<open>hasPermission("read")\<close> from \<open>true\<close> to \<open>false\<close> and adds \<open>read\<close> to
  \<open>getAllRestrictions()\<close>.
\<close>

theorem returned_array_is_the_internal_one:
  "case typed_example of
     (s, h0) \<Rightarrow>
       (case getRolePermissions h0 s ''editor'' of
          (ArrayAt r, h) \<Rightarrow>
            hasPermission h s ''update'' = Inr False \<and>
            hasPermission (Array_push r ''update'' h) s ''update'' = Inr True \<and>
            getAllPermissions h s = Inr [''read'', ''write''] \<and>
            getAllPermissions (Array_push r ''update'' h) s =
              Inr [''read'', ''write'', ''update'']
        | _ \<Rightarrow> False) \<and>
       (case getSectorRestrictedPermissions h0 s ''finance'' of
          (ArrayAt r, h) \<Rightarrow>
            hasPermission h s ''read'' = Inr True \<and>
            hasPermission (Array_push r ''read'' h) s ''read'' = Inr False \<and>
            getAllRestrictions h s = Inr [''delete''] \<and>
            getAllRestrictions (Array_push r ''read'' h) s = Inr [''delete'', ''read'']
        | _ \<Rightarrow> False)"
  by (simp add: example_defs getRolePermissions_def getSectorRestrictedPermissions_def
      value_or_new_Array_def Array_push_def hasPermission_def isRestricted_def
      getAllPermissions_def getAllRestrictions_def)

section \<open>Checks over several values\<close>

text \<open>
  C5. With the flag omitted, \<open>can\<close> on a list is \<open>can\<close> with \<open>every = true\<close>: it returns
  \<open>true\<close> exactly when every listed permission passes \<open>hasPermission\<close>, and where no
  listed permission makes \<open>hasPermission\<close> throw it returns whether all of them pass.
  \<open>hasRoles\<close> on a list is \<open>hasRoles\<close> with \<open>every = false\<close>, which asks one listed role to
  be assigned.
\<close>

theorem default_combinators:
  "can h s (Many xs) None = can h s (Many xs) (Some True) \<and>
   (can h s (Many xs) None = Inr True) =
     (\<forall>perm\<in>set xs. hasPermission h s perm = Inr True) \<and>
   ((\<forall>perm\<in>set xs. hasPermission h s perm \<noteq> Inl TypeError) \<longrightarrow>
      can h s (Many xs) None = Inr (\<forall>perm\<in>set xs. hasPermission h s perm = Inr True)) \<and>
   hasRoles s (Many ys) None = hasRoles s (Many ys) (Some False) \<and>
   hasRoles s (Many ys) None = (\<exists>role\<in>set ys. hasRole s role)"
  by (simp add: can_def hasRoles_def or_else_def list_ex_iff Array_every_True
      Array_every_no_error)

text \<open>
  Scenario A has \<open>read\<close> and not \<open>delete\<close>; scenario B has the role \<open>editor\<close> and not
  \<open>admin\<close>. The two defaults differ on such mixed lists.
\<close>

theorem default_combinators_witness:
  "(case scenario_A of
      (s, h) \<Rightarrow>
        hasPermission h s ''read'' = Inr True \<and>
        hasPermission h s ''delete'' = Inr False \<and>
        can h s (Many [''read'', ''delete'']) None = Inr False \<and>
        can h s (Many [''read'', ''delete'']) (Some True) = Inr False \<and>
        can h s (Many [''read'', ''delete'']) (Some False) = Inr True) \<and>
   (case scenario_B of
      (s, h) \<Rightarrow>
        hasRoles s (Many [''editor'', ''admin'']) None = True \<and>
        hasRoles s (Many [''editor'', ''admin'']) (Some False) = True \<and>
        hasRoles s (Many [''editor'', ''admin'']) (Some True) = False)"
  using default_combinators [of "snd scenario_A" "fst scenario_A" "[''read'', ''delete'']" "[]"]
    default_combinators [of "snd scenario_B" "fst scenario_B" "[]" "[''editor'', ''admin'']"]
  by (simp add: example_defs can_def hasRoles_def hasRole_def hasPermission_def
      isRestricted_def)

text \<open>
  C6. On the empty list, \<open>can([], true)\<close> is \<open>true\<close> and \<open>can([], false)\<close> is \<open>false\<close>, in
  every state.
\<close>

theorem empty_list_combinators:
  "can h s (Many []) (Some True) = Inr True \<and> can h s (Many []) (Some False) = Inr False"
  by (simp add: can_def or_else_def)

section \<open>Mutators\<close>

text \<open>
  C7. \<open>setSector(x)\<close>, for a sector name or \<open>null\<close>, sets the current sector to \<open>x\<close> and
  leaves the direct permissions, the roles, the role definitions, the direct restrictions
  and the sector-restriction table as they were (it has no access to the store of arrays
  and tables). What \<open>hasPermission\<close> does afterwards depends on \<open>x\<close> through
  \<open>isRestricted\<close> alone: an error of \<open>isRestricted\<close> is passed on, a restricted permission
  is denied, and otherwise the grants are looked up in the state before. So where
  \<open>isRestricted\<close> gives the same before and after, so does \<open>hasPermission\<close>.
\<close>

theorem setSector_frame:
  "permissions (setSector x s) = permissions s \<and>
   roles (setSector x s) = roles s \<and>
   roleDefinitions (setSector x s) = roleDefinitions s \<and>
   restrictions (setSector x s) = restrictions s \<and>
   sectorRestrictions (setSector x s) = sectorRestrictions s \<and>
   sector (setSector x s) = x \<and>
   hasPermission h (setSector x s) p =
     (case isRestricted h (setSector x s) p of
        Inl e \<Rightarrow> Inl e
      | Inr restricted \<Rightarrow>
          if restricted then Inr False
          else if Set_has (permissions s) p then Inr True
          else roles_loop h (roleDefinitions s) (roles s) p) \<and>
   (isRestricted h (setSector x s) p = isRestricted h s p \<longrightarrow>
      hasPermission h (setSector x s) p = hasPermission h s p)"
proof -
  have frame: "permissions (setSector x s) = permissions s" "roles (setSector x s) = roles s"
    "roleDefinitions (setSector x s) = roleDefinitions s"
    "restrictions (setSector x s) = restrictions s"
    "sectorRestrictions (setSector x s) = sectorRestrictions s"
    and switched: "sector (setSector x s) = x"
    by (simp_all add: setSector_def)
  have query: "hasPermission h (setSector x s) p =
     (case isRestricted h (setSector x s) p of
        Inl e \<Rightarrow> Inl e
      | Inr restricted \<Rightarrow>
          if restricted then Inr False
          else if Set_has (permissions s) p then Inr True
          else roles_loop h (roleDefinitions s) (roles s) p)"
    unfolding hasPermission_def [of h "setSector x s" p] frame ..
  have "hasPermission h (setSector x s) p = hasPermission h s p"
    if "isRestricted h (setSector x s) p = isRestricted h s p"
    unfolding query that by (simp add: hasPermission_def)
  with frame switched query show ?thesis
    by (intro conjI impI)
qed

text \<open>
  Scenario D: \<open>delete\<close> is denied in \<open>finance\<close>, allowed in \<open>hr\<close> and with no sector;
  \<open>read\<close> is restricted in neither sector and denied in both.
\<close>

theorem setSector_frame_witness:
  "case scenario_D of
     (s, h) \<Rightarrow>
       hasPermission h s ''delete'' = Inr False \<and>
       hasPermission h (setSector (Some ''hr'') s) ''delete'' = Inr True \<and>
       hasPermission h (setSector None s) ''delete'' = Inr True \<and>
       permissions (setSector (Some ''hr'') s) = [''delete''] \<and>
       isRestricted h (setSector (Some ''hr'') s) ''read'' = isRestricted h s ''read'' \<and>
       hasPermission h (setSector (Some ''hr'') s) ''read'' = hasPermission h s ''read''"
  using setSector_frame [of "Some ''hr''" "fst scenario_D" "snd scenario_D" "''delete''"]
    setSector_frame [of None "fst scenario_D" "snd scenario_D" "''delete''"]
    setSector_frame [of "Some ''hr''" "fst scenario_D" "snd scenario_D" "''read''"]
  by (simp add: example_defs hasPermission_def isRestricted_def setSector_def)

text \<open>
  C8. Adding elements that are all present, or removing elements that are all absent,
  leaves the evaluator as it was (the set keeps its members, its size and its order), and
  the call returns a copy of that set. This holds for \<open>addPermissions\<close>,
  \<open>removePermissions\<close>, \<open>addRoles\<close>, \<open>removeRoles\<close>, \<open>addRestrictions\<close> and
  \<open>removeRestrictions\<close>; none of them has a failing branch.
\<close>

theorem idempotent_mutation:
  "(set xs \<subseteq> set (permissions s) \<longrightarrow> addPermissions xs s = (getPermissions s, s)) \<and>
   (set xs \<inter> set (permissions s) = {} \<longrightarrow> removePermissions xs s = (getPermissions s, s)) \<and>
   (set xs \<subseteq> set (roles s) \<longrightarrow> addRoles xs s = (getRoles s, s)) \<and>
   (set xs \<inter> set (roles s) = {} \<longrightarrow> removeRoles xs s = (getRoles s, s)) \<and>
   (set xs \<subseteq> set (restrictions s) \<longrightarrow> addRestrictions xs s = (getRestrictions s, s)) \<and>
   (set xs \<inter> set (restrictions s) = {} \<longrightarrow>
      removeRestrictions xs s = (getRestrictions s, s))"
  by (simp add: addPermissions_def removePermissions_def getPermissions_def
      addRoles_def removeRoles_def getRoles_def
      addRestrictions_def removeRestrictions_def getRestrictions_def
      fold_Set_add_present fold_Set_delete_absent)

theorem idempotent_mutation_witness:
  "case scenario_C of
     (s, h) \<Rightarrow>
       addPermissions [''delete''] s = ([''delete''], s) \<and>
       removePermissions [''read''] s = ([''delete''], s) \<and>
       addRoles [''admin''] s = ([''admin''], s) \<and>
       removeRoles [''editor''] s = ([''admin''], s) \<and>
       addRestrictions [''delete''] s = ([''delete''], s) \<and>
       removeRestrictions [''write''] s = ([''delete''], s)"
  using idempotent_mutation [of "[''delete'']" "fst scenario_C"]
    idempotent_mutation [of "[''read'']" "fst scenario_C"]
    idempotent_mutation [of "[''admin'']" "fst scenario_C"]
    idempotent_mutation [of "[''editor'']" "fst scenario_C"]
    idempotent_mutation [of "[''write'']" "fst scenario_C"]
  by (simp add: example_defs getPermissions_def getRoles_def getRestrictions_def)

text \<open>
  C9, as the code has it. If the role is not assigned beforehand, \<open>addRoles([role])\<close>
  followed by \<open>removeRoles([role])\<close> gives back the evaluator it started from, and with it
  the outcome of \<open>hasPermission\<close> for every permission.
\<close>

theorem add_remove_role_round_trip:
  assumes "role \<notin> set (roles s)"
  shows "snd (removeRoles [role] (snd (addRoles [role] s))) = s \<and>
         hasPermission h (snd (removeRoles [role] (snd (addRoles [role] s)))) p =
           hasPermission h s p"
proof -
  from assms have added: "snd (addRoles [role] s) = s\<lparr>roles := roles s @ [role]\<rparr>"
    by (simp add: addRoles_def Set_add_def)
  from assms have "removeAll role (roles s @ [role]) = roles s"
    by simp
  then have "snd (removeRoles [role] (snd (addRoles [role] s))) = s"
    by (simp add: added removeRoles_def Set_delete_def)
  then show ?thesis
    by simp
qed

theorem add_remove_role_round_trip_witness:
  "case viewer_only of
     (s, h) \<Rightarrow>
       ''editor'' \<notin> set (roles s) \<and>
       hasPermission h s ''write'' = Inr False \<and>
       hasPermission h (snd (addRoles [''editor''] s)) ''write'' = Inr True \<and>
       hasPermission h (snd (removeRoles [''editor''] (snd (addRoles [''editor''] s))))
         ''write'' = Inr False"
  using add_remove_role_round_trip
    [of "''editor''" "fst viewer_only" "snd viewer_only" "''write''"]
  by (simp add: example_defs hasPermission_def isRestricted_def addRoles_def)

text \<open>
  C9 as stated fails in a state where \<open>editor\<close> is already assigned: \<open>write\<close> is granted by
  \<open>editor\<close> alone (no direct permission, no other role), \<open>hasPermission("write")\<close> is \<open>true\<close>
  before \<open>addRoles(["editor"])\<close> and \<open>false\<close> after the following \<open>removeRoles(["editor"])\<close>.
\<close>

theorem add_remove_assigned_role_loses_grant:
  "case editor_assigned of
     (s, h) \<Rightarrow>
       permissions s = [] \<and>
       roles s = [''editor''] \<and>
       hasPermission h s ''write'' = Inr True \<and>
       hasPermission h (snd (removeRoles [''editor''] (snd (addRoles [''editor''] s))))
         ''write'' = Inr False"
  by (simp add: example_defs hasPermission_def isRestricted_def addRoles_def removeRoles_def)

section \<open>The empty string as current sector\<close>

text \<open>
  C10. When the current sector is the empty string, a permission outside the
  direct-restriction set is not restricted (\<open>isPermissionRestricted\<close> returns \<open>false\<close>),
  and \<open>getAllRestrictions()\<close> returns the copy of the direct-restriction set that
  \<open>getRestrictions()\<close> returns: it has the members of the direct-restriction set and no
  other, whatever the table holds for the key \<open>""\<close>.
\<close>

theorem empty_string_sector_is_no_sector:
  assumes "sector s = Some ''''"
  shows "(p \<notin> set (restrictions s) \<longrightarrow> isPermissionRestricted h s p = Inr False) \<and>
         getAllRestrictions h s = Inr (getRestrictions s) \<and>
         set (getRestrictions s) = set (restrictions s)"
  using assms
  by (simp add: isPermissionRestricted_def isRestricted_def Set_has_def
      getAllRestrictions_def getRestrictions_def set_new_Set)

text \<open>The table holds \<open>["delete"]\<close> for the key \<open>""\<close>, and \<open>delete\<close> is not restricted.\<close>

theorem empty_string_sector_is_no_sector_witness:
  "case empty_sector of
     (s, h) \<Rightarrow>
       sector s = Some '''' \<and>
       own_list h (sectorRestrictions s) '''' = [''delete''] \<and>
       ''delete'' \<notin> set (restrictions s) \<and>
       isPermissionRestricted h s ''delete'' = Inr False \<and>
       getAllRestrictions h s = Inr []"
  using empty_string_sector_is_no_sector [of "fst empty_sector" "''delete''" "snd empty_sector"]
  by (simp add: example_defs getRestrictions_def)

end
